theory Spec2Isabelle
  imports Main "HOL-Library.AList"
begin

section \<open>Attribute values, tables and errors\<close>

text \<open>
  The chart builders of \<^verbatim>\<open>processdata/plots.py\<close> assemble nested Python dictionaries and
  hand them to the charting library. A value of such a dictionary is modelled by \<open>pval\<close>;
  a decimal literal \<open>m \<times> 10\<^sup>-\<^sup>e\<close> of the source is kept as \<open>PDec m e\<close> (0.05 is
  \<open>PDec 5 2\<close>), so that no floating point enters the model. The same type holds a decoded
  JSON document.
\<close>

datatype pval =
    PNone
  | PBool bool
  | PInt int
  | PDec int nat
  | PStr string
  | PList "pval list"
  | PDict "(string \<times> pval) list"

type_synonym props = "(string \<times> pval) list"

text \<open>
  A pandas table: the row labels (its index) and the named columns, each a list of cells
  in row order. The cell type \<open>'c\<close> and the label type \<open>'l\<close> are left open.
\<close>

record ('l, 'c) dataframe =
  index :: "'l list"
  columns :: "(string \<times> 'c list) list"

datatype key = ColumnKey string | ColumnKeys "string list" | LabelKeys "int list"

text \<open>
  The exceptions the chart builders can raise: attribute access to a column that is not
  there (\<open>AttributeError\<close>), subscripting by a missing column or dropping a missing row
  label (\<open>KeyError\<close>), a column name refused by the express interface (\<open>ValueError\<close>),
  an index that does not convert to dates (\<open>DatetimeError\<close>) and a failed download
  (\<open>URLError\<close>).
\<close>

datatype error =
    AttributeError string
  | KeyError key
  | ValueError
  | DatetimeError
  | URLError

text \<open>\<^verbatim>\<open>df.name\<close>: the column, or AttributeError.\<close>

definition getattr_col :: "('l, 'c) dataframe \<Rightarrow> string \<Rightarrow> error + 'c list" where
  "getattr_col df c =
     (case map_of (columns df) c of
        None \<Rightarrow> Inl (AttributeError c)
      | Some v \<Rightarrow> Inr v)"

text \<open>\<^verbatim>\<open>df['name']\<close>: the column, or KeyError.\<close>

definition getitem_col :: "('l, 'c) dataframe \<Rightarrow> string \<Rightarrow> error + 'c list" where
  "getitem_col df c =
     (case map_of (columns df) c of
        None \<Rightarrow> Inl (KeyError (ColumnKey c))
      | Some v \<Rightarrow> Inr v)"

text \<open>
  \<^verbatim>\<open>df[['a', 'b']]\<close>: a new table with the listed columns in the listed order, or
  KeyError naming the columns that are missing. The table subscripted is not touched.
\<close>

definition getitem_cols ::
  "('l, 'c) dataframe \<Rightarrow> string list \<Rightarrow> error + ('l, 'c) dataframe" where
  "getitem_cols df cs =
     (let missing = filter (\<lambda>c. map_of (columns df) c = None) cs in
      if missing = []
      then Inr (df\<lparr>columns :=
                 List.map_filter (\<lambda>c. map_option (Pair c) (map_of (columns df) c)) cs\<rparr>)
      else Inl (KeyError (ColumnKeys missing)))"

text \<open>The entries of \<open>xs\<close> at the positions where \<open>keep\<close> is true.\<close>

definition filter_rows :: "bool list \<Rightarrow> 'a list \<Rightarrow> 'a list" where
  "filter_rows keep xs = map snd (filter fst (zip keep xs))"

text \<open>
  \<^verbatim>\<open>df.drop(labels, inplace=True)\<close>: every row whose label is listed is removed, from
  the index and from each column; a listed label that no row carries raises KeyError
  (the default \<^verbatim>\<open>errors='raise'\<close>) and nothing is removed. The table returned is the
  state of the one object \<^verbatim>\<open>df\<close> names after the call.
\<close>

definition df_drop ::
  "(int, 'c) dataframe \<Rightarrow> int list \<Rightarrow> error + (int, 'c) dataframe" where
  "df_drop df labels =
     (let missing = filter (\<lambda>l. l \<notin> set (index df)) labels;
          keep = map (\<lambda>l. l \<notin> set labels) (index df)
      in if missing = []
         then Inr \<lparr>index = filter_rows keep (index df),
                   columns = map (\<lambda>(c, vs). (c, filter_rows keep vs)) (columns df)\<rparr>
         else Inl (KeyError (LabelKeys missing)))"

section \<open>Figures\<close>

text \<open>
  A figure is its layout and its traces in insertion order. A layout or trace attribute
  is addressed by its dotted path, the form the library itself uses in
  \<^verbatim>\<open>{'yaxis.type': 'log'}\<close>: the keyword \<^verbatim>\<open>yaxis_type='log'\<close> and the nested
  \<^verbatim>\<open>font=dict(color=...)\<close> are the entries \<open>yaxis.type\<close> and \<open>font.color\<close>. The data
  arrays of a trace (columns of a table) are kept apart from its constant attributes.
\<close>

record 'c trace =
  trace_type :: string
  arrays :: "(string \<times> 'c list) list"
  attrs :: props

record 'c figure =
  layout :: props
  traces :: "'c trace list"

text \<open>\<^verbatim>\<open>go.Figure(data, layout)\<close>: either argument may be left out (empty).\<close>

definition Figure :: "'c trace list \<Rightarrow> props \<Rightarrow> 'c figure" where
  "Figure ts l = \<lparr>layout = l, traces = ts\<rparr>"

text \<open>Assigning a list of attributes, left to right (a later one overrides).\<close>

definition set_props :: "props \<Rightarrow> props \<Rightarrow> props" where
  "set_props upd l = fold (\<lambda>(k, v). AList.update k v) upd l"

text \<open>\<^verbatim>\<open>fig.update_layout(...)\<close>\<close>

definition update_layout :: "props \<Rightarrow> 'c figure \<Rightarrow> 'c figure" where
  "update_layout upd fig = fig\<lparr>layout := set_props upd (layout fig)\<rparr>"

text \<open>
  \<^verbatim>\<open>fig.update_xaxes(...)\<close> and \<^verbatim>\<open>fig.update_yaxes(...)\<close> on a figure with one pair of
  axes: the attributes are set under \<open>xaxis\<close> and \<open>yaxis\<close>.
\<close>

definition update_xaxes :: "props \<Rightarrow> 'c figure \<Rightarrow> 'c figure" where
  "update_xaxes upd fig = update_layout (map (\<lambda>(k, v). (''xaxis.'' @ k, v)) upd) fig"

definition update_yaxes :: "props \<Rightarrow> 'c figure \<Rightarrow> 'c figure" where
  "update_yaxes upd fig = update_layout (map (\<lambda>(k, v). (''yaxis.'' @ k, v)) upd) fig"

text \<open>\<^verbatim>\<open>fig.add_traces([...])\<close>: the traces are appended in the order given.\<close>

definition add_traces :: "'c trace list \<Rightarrow> 'c figure \<Rightarrow> 'c figure" where
  "add_traces ts fig = fig\<lparr>traces := traces fig @ ts\<rparr>"

text \<open>The name of a trace, and the attribute at a path (\<open>None\<close>: left at its default).\<close>

definition trace_name :: "'c trace \<Rightarrow> pval option" where
  "trace_name t = map_of (attrs t) ''name''"

definition trace_attr :: "'c trace \<Rightarrow> string \<Rightarrow> pval option" where
  "trace_attr t k = map_of (attrs t) k"

definition trace_array :: "'c trace \<Rightarrow> string \<Rightarrow> 'c list option" where
  "trace_array t k = map_of (arrays t) k"

section \<open>total_growth\<close>

text \<open>
  The table of \<^verbatim>\<open>getdata.realtime_growth()\<close> is the argument \<open>df\<close>. Two library calls are
  parameters: \<open>to_datetime\<close> (\<^verbatim>\<open>pd.to_datetime\<close> on the index; \<open>None\<close> when the index does
  not convert) and \<open>plot\<close> (\<^verbatim>\<open>plotly.offline.plot\<close>, from a figure and its keyword
  arguments to markup). Every chart builder returns its result (an error, or what the
  Python function returns, \<open>None\<close> being Python's \<^verbatim>\<open>None\<close>) together with the state of
  its table after the call.
\<close>

definition total_growth_layout :: props where
  "total_growth_layout =
     [(''paper_bgcolor'', PStr ''rgba(0,0,0,0)''),
      (''plot_bgcolor'', PStr ''rgba(0,0,0,0)''),
      (''yaxis.type'', PStr ''log''),
      (''xaxis.showgrid'', PBool False),
      (''template'', PStr ''plotly_dark''),
      (''showlegend'', PBool False),
      (''font.color'', PStr ''#8898aa''),
      (''height'', PInt 310),
      (''margin.t'', PInt 0), (''margin.l'', PInt 10),
      (''margin.r'', PInt 10), (''margin.b'', PInt 0)]"

definition log_button :: pval where
  "log_button =
     PDict [(''args'', PList [PDict [(''yaxis.type'', PStr ''log'')]]),
            (''label'', PStr ''Logarithmic''),
            (''method'', PStr ''relayout'')]"

definition linear_button :: pval where
  "linear_button =
     PDict [(''args'', PList [PDict [(''yaxis.type'', PStr ''linear'')]]),
            (''label'', PStr ''Linear''),
            (''method'', PStr ''relayout'')]"

definition total_growth_updatemenus :: pval where
  "total_growth_updatemenus =
     PList [PDict [(''type'', PStr ''dropdown''),
                   (''buttons'', PList [log_button, linear_button]),
                   (''x'', PDec 5 2),
                   (''xanchor'', PStr ''auto''),
                   (''bgcolor'', PStr ''rgba(0,0,0,0)'')]]"

definition confirmed_trace :: "'c list \<Rightarrow> 'c list \<Rightarrow> 'c trace" where
  "confirmed_trace dates ys =
     \<lparr>trace_type = ''scatter'', arrays = [(''x'', dates), (''y'', ys)],
      attrs = [(''name'', PStr ''Confirmed''), (''mode'', PStr ''lines''),
               (''line.width'', PInt 4)]\<rparr>"

definition recovered_trace :: "'c list \<Rightarrow> 'c list \<Rightarrow> 'c trace" where
  "recovered_trace dates ys =
     \<lparr>trace_type = ''scatter'', arrays = [(''x'', dates), (''y'', ys)],
      attrs = [(''name'', PStr ''Recovered''), (''mode'', PStr ''lines''),
               (''line.width'', PInt 4)]\<rparr>"

definition deaths_trace :: "'c list \<Rightarrow> 'c list \<Rightarrow> 'c trace" where
  "deaths_trace dates ys =
     \<lparr>trace_type = ''scatter'', arrays = [(''x'', dates), (''y'', ys)],
      attrs = [(''name'', PStr ''Deaths''), (''mode'', PStr ''lines''),
               (''line.width'', PInt 4), (''marker.color'', PStr ''#f5365c'')]\<rparr>"

text \<open>The figure as it stands when \<^verbatim>\<open>plot\<close> is called (line 65).\<close>

definition total_growth_fig ::
  "('l list \<Rightarrow> 'c list option) \<Rightarrow> ('l, 'c) dataframe \<Rightarrow> error + 'c figure" where
  "total_growth_fig to_datetime df =
     (case to_datetime (index df) of
        None \<Rightarrow> Inl DatetimeError
      | Some dates \<Rightarrow>
          let fig = update_layout [(''updatemenus'', total_growth_updatemenus)]
                      (Figure [] total_growth_layout)
          in (case getattr_col df ''Confirmed'' of
               Inl e \<Rightarrow> Inl e
             | Inr confirmed \<Rightarrow>
          (case getattr_col df ''Recovered'' of
               Inl e \<Rightarrow> Inl e
             | Inr recovered \<Rightarrow>
          (case getattr_col df ''Deaths'' of
               Inl e \<Rightarrow> Inl e
             | Inr deaths \<Rightarrow>
                 Inr (add_traces [confirmed_trace dates confirmed,
                                  deaths_trace dates deaths,
                                  recovered_trace dates recovered] fig)))))"

definition plot_args :: props where
  "plot_args =
     [(''output_type'', PStr ''div''),
      (''config'', PDict [(''displayModeBar'', PBool False)])]"

definition total_growth ::
  "('c figure \<Rightarrow> props \<Rightarrow> 'm) \<Rightarrow> ('l list \<Rightarrow> 'c list option) \<Rightarrow> ('l, 'c) dataframe
     \<Rightarrow> (error + 'm option) \<times> ('l, 'c) dataframe" where
  "total_growth plot to_datetime df =
     (case total_growth_fig to_datetime df of
        Inl e \<Rightarrow> (Inl e, df)
      | Inr fig \<Rightarrow> (Inr (Some (plot fig plot_args)), df))"

section \<open>daily_growth\<close>

text \<open>
  The tables of \<^verbatim>\<open>getdata.daily_confirmed()\<close> and \<^verbatim>\<open>getdata.daily_deaths()\<close> are the
  arguments \<open>cases\<close> and \<open>deaths\<close>; each is subscripted by \<^verbatim>\<open>[['date', 'World']]\<close>,
  which builds a new table.
\<close>

definition daily_growth_layout :: props where
  "daily_growth_layout =
     [(''paper_bgcolor'', PStr ''rgba(0,0,0,0)''),
      (''plot_bgcolor'', PStr ''rgba(0,0,0,0)''),
      (''legend.x'', PDec 25 3), (''legend.y'', PInt 1),
      (''height'', PInt 310),
      (''margin.t'', PInt 0), (''margin.l'', PInt 15),
      (''margin.r'', PInt 10), (''margin.b'', PInt 0),
      (''barmode'', PStr ''stack'')]"

definition daily_deaths_trace :: "'c list \<Rightarrow> 'c list \<Rightarrow> 'c trace" where
  "daily_deaths_trace xs ys =
     \<lparr>trace_type = ''bar'', arrays = [(''x'', xs), (''y'', ys)],
      attrs = [(''name'', PStr ''Deaths''), (''marker.color'', PStr ''#f5365c'')]\<rparr>"

definition daily_cases_trace :: "'c list \<Rightarrow> 'c list \<Rightarrow> 'c trace" where
  "daily_cases_trace xs ys =
     \<lparr>trace_type = ''bar'', arrays = [(''x'', xs), (''y'', ys)],
      attrs = [(''name'', PStr ''Cases''), (''visible'', PStr ''legendonly'')]\<rparr>"

definition rangeselector_buttons :: "pval list" where
  "rangeselector_buttons =
     [PDict [(''count'', PInt 7), (''label'', PStr ''W''), (''step'', PStr ''day''),
             (''stepmode'', PStr ''backward'')],
      PDict [(''count'', PInt 1), (''label'', PStr ''M''), (''step'', PStr ''month''),
             (''stepmode'', PStr ''backward'')],
      PDict [(''count'', PInt 3), (''label'', PStr ''3M''), (''step'', PStr ''month''),
             (''stepmode'', PStr ''backward'')],
      PDict [(''label'', PStr ''T''), (''step'', PStr ''all'')]]"

text \<open>The figure as it stands when \<^verbatim>\<open>plot\<close> is called (line 96).\<close>

definition daily_growth_fig ::
  "('l, 'c) dataframe \<Rightarrow> ('l, 'c) dataframe \<Rightarrow> error + 'c figure" where
  "daily_growth_fig cases deaths =
     (case getitem_cols cases [''date'', ''World''] of
        Inl e \<Rightarrow> Inl e
      | Inr daily_cases \<Rightarrow>
     (case getitem_cols deaths [''date'', ''World''] of
        Inl e \<Rightarrow> Inl e
      | Inr daily_deaths \<Rightarrow>
     (case getattr_col daily_deaths ''date'' of
        Inl e \<Rightarrow> Inl e
      | Inr deaths_x \<Rightarrow>
     (case getattr_col daily_deaths ''World'' of
        Inl e \<Rightarrow> Inl e
      | Inr deaths_y \<Rightarrow>
     (case getattr_col daily_cases ''date'' of
        Inl e \<Rightarrow> Inl e
      | Inr cases_x \<Rightarrow>
     (case getattr_col daily_cases ''World'' of
        Inl e \<Rightarrow> Inl e
      | Inr cases_y \<Rightarrow>
          Inr (add_traces [daily_cases_trace cases_x cases_y,
                           daily_deaths_trace deaths_x deaths_y]
                (update_yaxes [(''gridcolor'', PStr ''#fff'')]
                  (update_xaxes [(''rangeselector.buttons'', PList rangeselector_buttons)]
                    (Figure [] daily_growth_layout))))))))))"

definition daily_growth ::
  "('c figure \<Rightarrow> props \<Rightarrow> 'm) \<Rightarrow> ('l, 'c) dataframe \<Rightarrow> ('l, 'c) dataframe
     \<Rightarrow> (error + 'm option) \<times> ('l, 'c) dataframe \<times> ('l, 'c) dataframe" where
  "daily_growth plot cases deaths =
     (case daily_growth_fig cases deaths of
        Inl e \<Rightarrow> (Inl e, cases, deaths)
      | Inr fig \<Rightarrow> (Inr (Some (plot fig plot_args)), cases, deaths))"

section \<open>world_map\<close>

text \<open>
  \<^verbatim>\<open>px.scatter_mapbox\<close> is the library's express interface; the model keeps what its
  documentation promises for this call. Every keyword that names a column (an encoding
  channel) must name a column of the table, else ValueError. With a numeric colour column
  the result is one \<open>scattermapbox\<close> trace that holds, for each channel, the column it
  names, row by row and unchanged; \<^verbatim>\<open>zoom\<close>, \<^verbatim>\<open>center\<close> and \<^verbatim>\<open>height\<close> go to the layout.
\<close>

definition scatter_mapbox ::
  "('l, 'c) dataframe \<Rightarrow> (string \<times> string) list \<Rightarrow> props \<Rightarrow> props \<Rightarrow> error + 'c figure" where
  "scatter_mapbox df channels trace_props layout_props =
     (if \<exists>(ch, col) \<in> set channels. map_of (columns df) col = None
      then Inl ValueError
      else Inr (Figure
             [\<lparr>trace_type = ''scattermapbox'',
               arrays = List.map_filter
                          (\<lambda>(ch, col). map_option (Pair ch) (map_of (columns df) col)) channels,
               attrs = trace_props\<rparr>]
             layout_props))"

definition world_map_channels :: "(string \<times> string) list" where
  "world_map_channels =
     [(''lat'', ''Lat''), (''lon'', ''Long_''),
      (''color'', ''Confirmed''), (''size'', ''Confirmed''),
      (''hover_name'', ''Country_Region''),
      (''hover_data.0'', ''Combined_Key''), (''hover_data.1'', ''Confirmed'')]"

definition world_map_fig :: "('l, 'c) dataframe \<Rightarrow> error + 'c figure" where
  "world_map_fig df =
     (case scatter_mapbox df world_map_channels
             [(''labels.Combined_Key'', PStr ''loc'')]
             [(''mapbox.zoom'', PInt 1),
              (''mapbox.center.lat'', PDec 200 1), (''mapbox.center.lon'', PDec (- 200) 1),
              (''height'', PInt 450)] of
        Inl e \<Rightarrow> Inl e
      | Inr fig \<Rightarrow>
          Inr (update_layout
                 [(''mapbox.style'', PStr ''carto-positron''),
                  (''paper_bgcolor'', PStr ''rgba(0,0,0,0)''),
                  (''margin.t'', PInt 0), (''margin.l'', PInt 0),
                  (''margin.r'', PInt 0), (''margin.b'', PInt 0)] fig))"

definition world_map ::
  "('c figure \<Rightarrow> props \<Rightarrow> 'm) \<Rightarrow> ('l, 'c) dataframe
     \<Rightarrow> (error + 'm option) \<times> ('l, 'c) dataframe" where
  "world_map plot df =
     (case world_map_fig df of
        Inl e \<Rightarrow> (Inl e, df)
      | Inr fig \<Rightarrow>
          (Inr (Some (plot fig ((''include_plotlyjs'', PBool False) # plot_args))), df))"

section \<open>usa_map\<close>

text \<open>
  \<open>fetched\<close> is what the download and \<^verbatim>\<open>json.load\<close> of the county boundaries gave (an
  error, or the document), \<open>df0\<close> the table of \<^verbatim>\<open>getdata.usa_counties()\<close>. The source text
  of the colour at the last stop of the colour scale breaks off after its opening quote;
  the colour is the parameter \<open>last_color\<close>.
\<close>

definition usa_map_colorscale :: "string \<Rightarrow> pval" where
  "usa_map_colorscale last_color =
     PList [PList [PInt 0, PStr ''#FFE9E6''], PList [PDec 15 2, PStr ''#DA3A03''],
            PList [PDec 50 2, PStr ''#331112''], PList [PDec 10 1, PStr last_color]]"

definition choropleth_trace :: "string \<Rightarrow> pval \<Rightarrow> 'c list \<Rightarrow> 'c list \<Rightarrow> 'c trace" where
  "choropleth_trace last_color counties fips z =
     \<lparr>trace_type = ''choroplethmapbox'',
      arrays = [(''locations'', fips), (''z'', z)],
      attrs = [(''geojson'', counties),
               (''marker.opacity'', PDec 8 1),
               (''marker.line.width'', PInt 0),
               (''colorscale'', usa_map_colorscale last_color)]\<rparr>"

text \<open>
  The figure as it stands at the \<^verbatim>\<open>return\<close> (line 150), with the state of the table:
  \<^verbatim>\<open>drop\<close> changes the table itself, and the columns are read after it.
\<close>

definition usa_map_fig ::
  "string \<Rightarrow> error + pval \<Rightarrow> (int, 'c) dataframe
     \<Rightarrow> (error + 'c figure) \<times> (int, 'c) dataframe" where
  "usa_map_fig last_color fetched df0 =
     (case fetched of
        Inl e \<Rightarrow> (Inl e, df0)
      | Inr counties \<Rightarrow>
     (case df_drop df0 [2311] of
        Inl e \<Rightarrow> (Inl e, df0)
      | Inr df \<Rightarrow>
     (case getattr_col df ''fips'' of
        Inl e \<Rightarrow> (Inl e, df)
      | Inr fips \<Rightarrow>
     (case getitem_col df ''cases/capita'' of
        Inl e \<Rightarrow> (Inl e, df)
      | Inr z \<Rightarrow>
          (Inr (update_layout
                  [(''mapbox.style'', PStr ''carto-positron''),
                   (''mapbox.zoom'', PDec 275 2),
                   (''mapbox.center.lat'', PDec 370902 4),
                   (''mapbox.center.lon'', PDec (- 957129) 4),
                   (''margin.t'', PInt 0), (''margin.l'', PInt 0),
                   (''margin.r'', PInt 0), (''margin.b'', PInt 0)]
                  (Figure [choropleth_trace last_color counties fips z] [])),
           df)))))"

text \<open>The function ends in \<^verbatim>\<open>return None\<close>: the figure is built and dropped.\<close>

definition usa_map ::
  "string \<Rightarrow> error + pval \<Rightarrow> (int, 'c) dataframe
     \<Rightarrow> (error + 'm option) \<times> (int, 'c) dataframe" where
  "usa_map last_color fetched df0 =
     (case usa_map_fig last_color fetched df0 of
        (Inl e, df) \<Rightarrow> (Inl e, df)
      | (Inr fig, df) \<Rightarrow> (Inr None, df))"

section \<open>The dropdown of total_growth in the browser\<close>

text \<open>
  The two buttons of the dropdown are declared with \<^verbatim>\<open>method='relayout'\<close> and one
  dictionary of arguments. Pressing such a button assigns the entries of that dictionary
  to the layout of the figure shown, by dotted path, and touches nothing else; a button
  of another method is outside this model (\<open>None\<close>).
\<close>

definition relayout :: "props \<Rightarrow> 'c figure \<Rightarrow> 'c figure" where
  "relayout upd fig = fig\<lparr>layout := set_props upd (layout fig)\<rparr>"

definition press :: "pval \<Rightarrow> 'c figure \<Rightarrow> 'c figure option" where
  "press b fig =
     (case b of
        PDict d \<Rightarrow>
          (case map_of d ''method'' of
             Some (PStr m) \<Rightarrow>
               (case map_of d ''args'' of
                  Some (PList [PDict upd]) \<Rightarrow>
                    if m = ''relayout'' then Some (relayout upd fig) else None
                | _ \<Rightarrow> None)
           | _ \<Rightarrow> None)
      | _ \<Rightarrow> None)"

fun press_all :: "pval list \<Rightarrow> 'c figure \<Rightarrow> 'c figure option" where
  "press_all [] fig = Some fig"
| "press_all (b # bs) fig =
     (case press b fig of None \<Rightarrow> None | Some fig' \<Rightarrow> press_all bs fig')"

text \<open>The buttons of all the menus a layout declares, in order.\<close>

definition menu_buttons :: "'c figure \<Rightarrow> pval list" where
  "menu_buttons fig =
     (case map_of (layout fig) ''updatemenus'' of
        Some (PList menus) \<Rightarrow>
          concat (map (\<lambda>m. case m of
                              PDict d \<Rightarrow>
                                (case map_of d ''buttons'' of
                                   Some (PList bs) \<Rightarrow> bs
                                 | _ \<Rightarrow> [])
                            | _ \<Rightarrow> []) menus)
      | _ \<Rightarrow> [])"

section \<open>Rows of a table by label\<close>

text \<open>
  The entries of a column \<open>xs\<close> of a table with index \<open>ls\<close> at the rows whose label is
  not \<open>l\<close>, in row order.
\<close>

definition rows_without :: "'l \<Rightarrow> 'l list \<Rightarrow> 'a list \<Rightarrow> 'a list" where
  "rows_without l ls xs = map snd (filter (\<lambda>(l', v). l' \<noteq> l) (zip ls xs))"

section \<open>The range selector of daily_growth in the browser\<close>

text \<open>
  The presets of the range selector act in the browser, on the x axis of the figure
  shown. The model follows the library's reference for \<^verbatim>\<open>rangeselector.buttons\<close>: a
  preset with \<^verbatim>\<open>stepmode='backward'\<close> keeps the upper end of the current range and moves
  its lower end \<^verbatim>\<open>count\<close> times \<^verbatim>\<open>step\<close> before that upper end; the step \<^verbatim>\<open>all\<close> gives
  the range of all the data drawn. The axis is read at the resolution of the tables,
  whole days.

  A calendar date is a year, a month (1 to 12) and a day of the month. Its position on the
  axis is its day number in the proleptic Gregorian calendar (1 for 1 January of year 1).
  A day of the month beyond the end of its month, or before its first day, stands for the
  day that many days on, as in the date arithmetic of the browser: the 31st of a month of
  30 days is the 1st of the next.
\<close>

datatype date = Date int nat int

definition leap_year :: "int \<Rightarrow> bool" where
  "leap_year y \<longleftrightarrow> y mod 4 = 0 \<and> (y mod 100 \<noteq> 0 \<or> y mod 400 = 0)"

definition days_in_month :: "int \<Rightarrow> nat \<Rightarrow> int" where
  "days_in_month y m =
     (if m = 2 then (if leap_year y then 29 else 28)
      else if m = 4 \<or> m = 6 \<or> m = 9 \<or> m = 11 then 30
      else 31)"

definition days_before_month :: "int \<Rightarrow> nat \<Rightarrow> int" where
  "days_before_month y m = sum_list (map (days_in_month y) [1..<m])"

definition days_before_year :: "int \<Rightarrow> int" where
  "days_before_year y = 365 * (y - 1) + (y - 1) div 4 - (y - 1) div 100 + (y - 1) div 400"

fun day_number :: "date \<Rightarrow> int" where
  "day_number (Date y m d) = days_before_year y + days_before_month y m + d"

text \<open>The length of the month a date lies in.\<close>

fun month_length :: "date \<Rightarrow> int" where
  "month_length (Date y m d) = days_in_month y m"

text \<open>
  Moving a date by \<open>k\<close> days, and by \<open>k\<close> months: the month moves, carrying into the year,
  and the day of the month stays.
\<close>

fun day_offset :: "int \<Rightarrow> date \<Rightarrow> date" where
  "day_offset k (Date y m d) = Date y m (d + k)"

fun month_offset :: "int \<Rightarrow> date \<Rightarrow> date" where
  "month_offset k (Date y m d) =
     (let t = int m - 1 + k in Date (y + t div 12) (nat (t mod 12) + 1) d)"

text \<open>A range of the axis, from its lower to its upper end, and its length in days.\<close>

type_synonym xrange = "date \<times> date"

definition span :: "xrange \<Rightarrow> int" where
  "span r = day_number (snd r) - day_number (fst r)"

text \<open>
  A trace is drawn unless its \<open>visible\<close> attribute is \<^verbatim>\<open>'legendonly'\<close> or \<^verbatim>\<open>False\<close>. The
  dates drawn are the x values of the drawn traces, each read as a date by \<open>as_date\<close>
  (the library's reading of a cell; a parameter).
\<close>

definition drawn :: "'c trace \<Rightarrow> bool" where
  "drawn t \<longleftrightarrow>
     trace_attr t ''visible'' \<noteq> Some (PStr ''legendonly'')
     \<and> trace_attr t ''visible'' \<noteq> Some (PBool False)"

definition drawn_dates :: "('c \<Rightarrow> date) \<Rightarrow> 'c figure \<Rightarrow> date list" where
  "drawn_dates as_date fig =
     concat (map (\<lambda>t. case trace_array t ''x'' of
                          None \<Rightarrow> []
                        | Some xs \<Rightarrow> map as_date xs)
                 (filter drawn (traces fig)))"

fun earliest :: "date \<Rightarrow> date list \<Rightarrow> date" where
  "earliest best [] = best"
| "earliest best (d # ds) =
     earliest (if day_number d < day_number best then d else best) ds"

fun latest :: "date \<Rightarrow> date list \<Rightarrow> date" where
  "latest best [] = best"
| "latest best (d # ds) =
     latest (if day_number best < day_number d then d else best) ds"

text \<open>
  The range of all the data drawn: from the earliest to the latest date (\<open>None\<close> when no
  date is drawn). The margin of half a bar that the library adds at either end of a bar
  chart is left out.
\<close>

definition autorange :: "date list \<Rightarrow> xrange option" where
  "autorange ds =
     (case ds of
        [] \<Rightarrow> None
      | d # ds' \<Rightarrow> Some (earliest d ds', latest d ds'))"

text \<open>The presets a layout declares for its x axis, in order.\<close>

definition range_presets :: "'c figure \<Rightarrow> pval list" where
  "range_presets fig =
     (case map_of (layout fig) ''xaxis.rangeselector.buttons'' of
        Some (PList bs) \<Rightarrow> bs
      | _ \<Rightarrow> [])"

text \<open>
  Selecting a preset, given the range of all the data drawn (\<open>full\<close>) and the current
  range of the axis (\<open>cur\<close>). A preset with another step or step mode, or without a
  count, is outside this model (\<open>None\<close>).
\<close>

definition select_preset :: "pval \<Rightarrow> xrange \<Rightarrow> xrange \<Rightarrow> xrange option" where
  "select_preset b full cur =
     (case b of
        PDict p \<Rightarrow>
          (case map_of p ''step'' of
             Some (PStr step) \<Rightarrow>
               if step = ''all'' then Some full
               else
                 (case map_of p ''stepmode'' of
                    Some (PStr stepmode) \<Rightarrow>
                      (case map_of p ''count'' of
                         Some (PInt n) \<Rightarrow>
                           if stepmode = ''backward'' \<and> step = ''day''
                           then Some (day_offset (- n) (snd cur), snd cur)
                           else if stepmode = ''backward'' \<and> step = ''month''
                           then Some (month_offset (- n) (snd cur), snd cur)
                           else None
                       | _ \<Rightarrow> None)
                  | _ \<Rightarrow> None)
           | _ \<Rightarrow> None)
      | _ \<Rightarrow> None)"

text \<open>How a witness reads a date cell: the list of its year, month and day.\<close>

definition ymd :: "pval \<Rightarrow> date" where
  "ymd c = (case c of
              PList [PInt y, PInt m, PInt d] \<Rightarrow> Date y (nat m) d
            | _ \<Rightarrow> Date 1970 1 1)"

section \<open>Facts about tables\<close>

lemma filter_rows_map:
  "filter_rows (map P ls) xs = map snd (filter (\<lambda>(l, v). P l) (zip ls xs))"
proof (induction ls arbitrary: xs)
  case Nil
  show ?case by (simp add: filter_rows_def)
next
  case (Cons l ls)
  then show ?case by (cases xs) (auto simp: filter_rows_def)
qed

lemma filter_zip_same: "map snd (filter (\<lambda>(l, v). P l) (zip ls ls)) = filter P ls"
  by (induction ls) auto

lemma df_drop_present:
  assumes "2311 \<in> set (index df)"
  shows "df_drop df [2311] =
           Inr \<lparr>index = filter (\<lambda>l. l \<noteq> 2311) (index df),
                columns = map (\<lambda>(c, vs). (c, rows_without 2311 (index df) vs)) (columns df)\<rparr>"
  using assms
  by (simp add: df_drop_def filter_rows_map filter_zip_same rows_without_def)

lemma df_drop_absent:
  assumes "2311 \<notin> set (index df)"
  shows "df_drop df [2311] = Inl (KeyError (LabelKeys [2311]))"
  using assms by (simp add: df_drop_def)

lemma map_of_dropped:
  "map_of (map (\<lambda>(c, vs). (c, f vs)) cols) k = map_option f (map_of cols k)"
  by (induction cols) auto

lemma usa_map_fig_ok:
  assumes "2311 \<in> set (index df)"
    and "map_of (columns df) ''fips'' = Some fips"
    and "map_of (columns df) ''cases/capita'' = Some z"
  shows "usa_map_fig last_color (Inr counties) df =
     (Inr \<lparr>layout = [(''mapbox.style'', PStr ''carto-positron''),
                   (''mapbox.zoom'', PDec 275 2),
                   (''mapbox.center.lat'', PDec 370902 4),
                   (''mapbox.center.lon'', PDec (- 957129) 4),
                   (''margin.t'', PInt 0), (''margin.l'', PInt 0),
                   (''margin.r'', PInt 0), (''margin.b'', PInt 0)],
           traces = [choropleth_trace last_color counties
                       (rows_without 2311 (index df) fips)
                       (rows_without 2311 (index df) z)]\<rparr>,
      \<lparr>index = filter (\<lambda>l. l \<noteq> 2311) (index df),
       columns = map (\<lambda>(c, vs). (c, rows_without 2311 (index df) vs)) (columns df)\<rparr>)"
  using assms
  by (simp add: usa_map_fig_def df_drop_present getattr_col_def getitem_col_def
      map_of_dropped update_layout_def Figure_def set_props_def)

lemma usa_map_fig_table:
  "snd (usa_map_fig last_color fetched df) =
     (case fetched of
        Inl e \<Rightarrow> df
      | Inr counties \<Rightarrow>
          if 2311 \<in> set (index df)
          then \<lparr>index = filter (\<lambda>l. l \<noteq> 2311) (index df),
                columns = map (\<lambda>(c, vs). (c, rows_without 2311 (index df) vs)) (columns df)\<rparr>
          else df)"
  by (simp add: usa_map_fig_def df_drop_present df_drop_absent
      split: sum.splits)

lemma usa_map_table: "snd (usa_map last_color fetched df) = snd (usa_map_fig last_color fetched df)"
  by (simp add: usa_map_def split: prod.splits sum.splits)

section \<open>Properties of usa_map\<close>

text \<open>
  C1. The claim asks that \<^verbatim>\<open>usa_map\<close> return chart markup for every input. The function
  ends in \<^verbatim>\<open>return None\<close>: whatever the colour, the download and the table, its result is
  never markup. The second theorem runs it on a table of three counties.
\<close>

theorem usa_map_never_returns_markup:
  "fst (usa_map last_color fetched df) \<noteq> Inr (Some m)"
  by (simp add: usa_map_def split: prod.splits sum.splits)

theorem usa_map_returns_None_example:
  "fst (usa_map ''#000000'' (Inr (PDict []))
          \<lparr>index = [2310, 2311, 2312],
           columns = [(''fips'', [PStr ''46135'', PStr ''46102'', PStr ''47001'']),
                      (''cases/capita'', [PDec 12 4, PDec 0 1, PDec 31 4])]\<rparr>)
     = (Inr None :: error + unit option)"
  using usa_map_never_returns_markup [of "''#000000''" "Inr (PDict [])"
      "\<lparr>index = [2310, 2311, 2312],
           columns = [(''fips'', [PStr ''46135'', PStr ''46102'', PStr ''47001'']),
                      (''cases/capita'', [PDec 12 4, PDec 0 1, PDec 31 4])]\<rparr>" "()"]
  by (simp add: usa_map_def usa_map_fig_ok)

text \<open>
  C8. When the boundaries were fetched and the table has a row labelled 2311 and the two
  columns the trace reads, the figure has one trace, and its locations and its values are
  the \<^verbatim>\<open>fips\<close> and \<^verbatim>\<open>cases/capita\<close> columns without the rows labelled 2311: no such row
  reaches the trace, and none is left in the table.
\<close>

theorem usa_map_excludes_row:
  assumes "2311 \<in> set (index df)"
    and "map_of (columns df) ''fips'' = Some fips"
    and "map_of (columns df) ''cases/capita'' = Some z"
  shows "\<exists>fig t. fst (usa_map_fig last_color (Inr counties) df) = Inr fig
           \<and> traces fig = [t]
           \<and> trace_array t ''locations'' = Some (rows_without 2311 (index df) fips)
           \<and> trace_array t ''z'' = Some (rows_without 2311 (index df) z)
           \<and> 2311 \<notin> set (index (snd (usa_map_fig last_color (Inr counties) df)))"
  by (simp add: usa_map_fig_ok [OF assms] trace_array_def choropleth_trace_def)

theorem usa_map_excludes_row_witness:
  "\<exists>fig t. fst (usa_map_fig ''#000000'' (Inr (PDict []))
                 \<lparr>index = [2310, 2311, 2312],
                  columns = [(''fips'', [PStr ''46135'', PStr ''46102'', PStr ''47001'']),
                             (''cases/capita'', [PDec 12 4, PDec 0 1, PDec 31 4])]\<rparr>) = Inr fig
      \<and> traces fig = [t]
      \<and> trace_array t ''locations'' = Some [PStr ''46135'', PStr ''47001'']
      \<and> trace_array t ''z'' = Some [PDec 12 4, PDec 31 4]"
  using usa_map_excludes_row [of
      "\<lparr>index = [2310, 2311, 2312],
                  columns = [(''fips'', [PStr ''46135'', PStr ''46102'', PStr ''47001'']),
                             (''cases/capita'', [PDec 12 4, PDec 0 1, PDec 31 4])]\<rparr>"
      "[PStr ''46135'', PStr ''46102'', PStr ''47001'']" "[PDec 12 4, PDec 0 1, PDec 31 4]"
      "''#000000''" "PDict []"]
  by (auto simp: rows_without_def)

text \<open>
  C10. On a table with no row labelled 2311 \<^verbatim>\<open>usa_map\<close> raises: once the boundaries are
  fetched, the error is the KeyError of \<^verbatim>\<open>drop\<close> for the label 2311, raised before any
  column is read or any figure is built, and the table is left as it was. (When the
  download fails, its error is raised instead.)
\<close>

theorem usa_map_missing_label:
  assumes "2311 \<notin> set (index df)"
  shows "(\<exists>e. usa_map last_color fetched df = (Inl e :: error + 'm option, df))
       \<and> (\<forall>counties. fetched = Inr counties \<longrightarrow>
            usa_map_fig last_color fetched df = (Inl (KeyError (LabelKeys [2311])), df)
          \<and> usa_map last_color fetched df
              = (Inl (KeyError (LabelKeys [2311])) :: error + 'm option, df))"
  using assms
  by (cases fetched) (simp_all add: usa_map_def usa_map_fig_def df_drop_absent)

theorem usa_map_missing_label_witness:
  "usa_map ''#000000'' (Inr (PDict []))
     \<lparr>index = [0, 1, 2],
      columns = [(''fips'', [PStr ''01001'', PStr ''01003'', PStr ''01005'']),
                 (''cases/capita'', [PDec 12 4, PDec 0 1, PDec 31 4])]\<rparr>
   = (Inl (KeyError (LabelKeys [2311])) :: error + unit option,
      \<lparr>index = [0, 1, 2],
       columns = [(''fips'', [PStr ''01001'', PStr ''01003'', PStr ''01005'']),
                  (''cases/capita'', [PDec 12 4, PDec 0 1, PDec 31 4])]\<rparr>)"
  using usa_map_missing_label [where ?'m = unit, of
      "\<lparr>index = [0, 1, 2],
      columns = [(''fips'', [PStr ''01001'', PStr ''01003'', PStr ''01005'']),
                 (''cases/capita'', [PDec 12 4, PDec 0 1, PDec 31 4])]\<rparr>"
      "''#000000''" "Inr (PDict [])"]
  by simp

section \<open>Properties of total_growth\<close>

lemma total_growth_fig_ok:
  assumes "to_datetime (index df) = Some dates"
    and "map_of (columns df) ''Confirmed'' = Some cs"
    and "map_of (columns df) ''Recovered'' = Some rs"
    and "map_of (columns df) ''Deaths'' = Some ds"
  shows "total_growth_fig to_datetime df =
           Inr \<lparr>layout = total_growth_layout @ [(''updatemenus'', total_growth_updatemenus)],
                traces = [confirmed_trace dates cs, deaths_trace dates ds,
                          recovered_trace dates rs]\<rparr>"
  using assms
  by (simp add: total_growth_fig_def getattr_col_def add_traces_def update_layout_def
      Figure_def set_props_def total_growth_layout_def)

text \<open>
  C2. On a table whose index converts to dates and that has the columns Confirmed,
  Recovered and Deaths, \<^verbatim>\<open>total_growth\<close> plots a figure of exactly three traces, named
  Confirmed, Deaths, Recovered in this order of insertion, each over the dates and its own
  column. The Deaths trace carries the marker colour \<^verbatim>\<open>#f5365c\<close>; the other two set a
  name, a mode and a line width only, so their colour is the library's default.
\<close>

theorem total_growth_three_series:
  assumes "to_datetime (index df) = Some dates"
    and "map_of (columns df) ''Confirmed'' = Some cs"
    and "map_of (columns df) ''Recovered'' = Some rs"
    and "map_of (columns df) ''Deaths'' = Some ds"
  shows "\<exists>fig. total_growth_fig to_datetime df = Inr fig
           \<and> fst (total_growth plot to_datetime df) = Inr (Some (plot fig plot_args))
           \<and> map trace_name (traces fig) =
               [Some (PStr ''Confirmed''), Some (PStr ''Deaths''), Some (PStr ''Recovered'')]
           \<and> map arrays (traces fig) =
               [[(''x'', dates), (''y'', cs)], [(''x'', dates), (''y'', ds)],
                [(''x'', dates), (''y'', rs)]]
           \<and> map (map fst \<circ> attrs) (traces fig) =
               [[''name'', ''mode'', ''line.width''],
                [''name'', ''mode'', ''line.width'', ''marker.color''],
                [''name'', ''mode'', ''line.width'']]
           \<and> map (\<lambda>t. trace_attr t ''marker.color'') (traces fig) =
               [None, Some (PStr ''#f5365c''), None]"
  using total_growth_fig_ok [of to_datetime df dates cs rs ds] assms
  by (simp add: total_growth_def trace_name_def trace_attr_def
      confirmed_trace_def deaths_trace_def recovered_trace_def)

theorem total_growth_three_series_witness:
  "\<exists>fig. total_growth_fig (\<lambda>ls. Some (map PStr ls))
            \<lparr>index = [''1/22/20'', ''1/23/20''],
             columns = [(''Confirmed'', [PInt 555, PInt 654]),
                        (''Recovered'', [PInt 28, PInt 30]),
                        (''Deaths'', [PInt 17, PInt 18])]\<rparr> = Inr fig
         \<and> map trace_name (traces fig) =
             [Some (PStr ''Confirmed''), Some (PStr ''Deaths''), Some (PStr ''Recovered'')]
         \<and> map (\<lambda>t. trace_attr t ''marker.color'') (traces fig) =
             [None, Some (PStr ''#f5365c''), None]"
  using total_growth_three_series [of "\<lambda>ls. Some (map PStr ls)"
      "\<lparr>index = [''1/22/20'', ''1/23/20''],
             columns = [(''Confirmed'', [PInt 555, PInt 654]),
                        (''Recovered'', [PInt 28, PInt 30]),
                        (''Deaths'', [PInt 17, PInt 18])]\<rparr>"
      "[PStr ''1/22/20'', PStr ''1/23/20'']" "[PInt 555, PInt 654]" "[PInt 28, PInt 30]"
      "[PInt 17, PInt 18]" "\<lambda>f a. ()"]
  by auto

text \<open>
  C9. The missing-column error of \<^verbatim>\<open>total_growth\<close> is the AttributeError of the
  attribute access \<^verbatim>\<open>df.Confirmed\<close>, \<^verbatim>\<open>df.Recovered\<close>, \<^verbatim>\<open>df.Deaths\<close>, and nothing catches
  it. On a table whose index converts to dates and that lacks one of the three columns,
  the call fails with that error, naming a column the table lacks; on a table with all
  three columns no such error is raised.
\<close>

theorem total_growth_missing_column:
  fixes plot :: "'c figure \<Rightarrow> props \<Rightarrow> 'm"
    and df :: "('l, 'c) dataframe"
  shows "(to_datetime (index df) \<noteq> None
            \<and> \<not> {''Confirmed'', ''Recovered'', ''Deaths''} \<subseteq> fst ` set (columns df)
          \<longrightarrow> (\<exists>c. c \<in> {''Confirmed'', ''Recovered'', ''Deaths''}
                 \<and> c \<notin> fst ` set (columns df)
                 \<and> fst (total_growth plot to_datetime df) = Inl (AttributeError c)))
       \<and> ({''Confirmed'', ''Recovered'', ''Deaths''} \<subseteq> fst ` set (columns df)
          \<longrightarrow> (\<forall>c. fst (total_growth plot to_datetime df) \<noteq> Inl (AttributeError c)))"
proof (intro conjI impI)
  assume a: "to_datetime (index df) \<noteq> None
            \<and> \<not> {''Confirmed'', ''Recovered'', ''Deaths''} \<subseteq> fst ` set (columns df)"
  then obtain dates where d: "to_datetime (index df) = Some dates" by auto
  show "\<exists>c. c \<in> {''Confirmed'', ''Recovered'', ''Deaths''}
                 \<and> c \<notin> fst ` set (columns df)
                 \<and> fst (total_growth plot to_datetime df) = Inl (AttributeError c)"
  proof (cases "map_of (columns df) ''Confirmed''")
    case None
    then have "fst (total_growth plot to_datetime df) = Inl (AttributeError ''Confirmed'')"
      using d by (simp add: total_growth_def total_growth_fig_def getattr_col_def)
    with None show ?thesis by (auto simp: map_of_eq_None_iff)
  next
    case c: (Some cs)
    show ?thesis
    proof (cases "map_of (columns df) ''Recovered''")
      case None
      then have "fst (total_growth plot to_datetime df) = Inl (AttributeError ''Recovered'')"
        using d c by (simp add: total_growth_def total_growth_fig_def getattr_col_def)
      with None show ?thesis by (auto simp: map_of_eq_None_iff)
    next
      case r: (Some rs)
      from a c r have n: "map_of (columns df) ''Deaths'' = None"
        by (auto simp: map_of_eq_None_iff [symmetric])
      then have "fst (total_growth plot to_datetime df) = Inl (AttributeError ''Deaths'')"
        using d c r by (simp add: total_growth_def total_growth_fig_def getattr_col_def)
      with n show ?thesis by (auto simp: map_of_eq_None_iff)
    qed
  qed
next
  assume "{''Confirmed'', ''Recovered'', ''Deaths''} \<subseteq> fst ` set (columns df)"
  then have "map_of (columns df) ''Confirmed'' \<noteq> None"
      "map_of (columns df) ''Recovered'' \<noteq> None" "map_of (columns df) ''Deaths'' \<noteq> None"
    by (simp_all add: map_of_eq_None_iff)
  then show "\<forall>c. fst (total_growth plot to_datetime df) \<noteq> Inl (AttributeError c)"
    by (auto simp: total_growth_def total_growth_fig_def getattr_col_def
        split: option.splits)
qed

theorem total_growth_missing_column_witness:
  "fst (total_growth (\<lambda>f a. ()) (\<lambda>ls. Some (map PStr ls))
          \<lparr>index = [''1/22/20'', ''1/23/20''],
           columns = [(''Confirmed'', [PInt 555, PInt 654]),
                      (''Deaths'', [PInt 17, PInt 18])]\<rparr>)
     = Inl (AttributeError ''Recovered'')
   \<and> fst (total_growth (\<lambda>f a. ()) (\<lambda>ls. Some (map PStr ls))
          \<lparr>index = [''1/22/20'', ''1/23/20''],
           columns = [(''Confirmed'', [PInt 555, PInt 654]),
                      (''Recovered'', [PInt 28, PInt 30]),
                      (''Deaths'', [PInt 17, PInt 18])]\<rparr>)
     \<noteq> Inl (AttributeError ''Recovered'')"
  using total_growth_missing_column [of "\<lambda>ls. Some (map PStr ls)"
          "\<lparr>index = [''1/22/20'', ''1/23/20''],
           columns = [(''Confirmed'', [PInt 555, PInt 654]),
                      (''Deaths'', [PInt 17, PInt 18])]\<rparr>" "\<lambda>f a. ()"]
    total_growth_missing_column [of "\<lambda>ls. Some (map PStr ls)"
          "\<lparr>index = [''1/22/20'', ''1/23/20''],
           columns = [(''Confirmed'', [PInt 555, PInt 654]),
                      (''Recovered'', [PInt 28, PInt 30]),
                      (''Deaths'', [PInt 17, PInt 18])]\<rparr>" "\<lambda>f a. ()"]
  by auto

lemma press_log_button:
  "press log_button g = Some (g\<lparr>layout := AList.update ''yaxis.type'' (PStr ''log'') (layout g)\<rparr>)"
  by (simp add: press_def log_button_def relayout_def set_props_def)

lemma press_linear_button:
  "press linear_button g =
     Some (g\<lparr>layout := AList.update ''yaxis.type'' (PStr ''linear'') (layout g)\<rparr>)"
  by (simp add: press_def linear_button_def relayout_def set_props_def)

lemma press_toggle:
  assumes "b \<in> {log_button, linear_button}"
  shows "\<exists>v \<in> {PStr ''log'', PStr ''linear''}. \<forall>g :: 'c figure.
           press b g = Some (g\<lparr>layout := AList.update ''yaxis.type'' v (layout g)\<rparr>)"
  using assms by (auto simp: press_log_button press_linear_button)

lemma press_all_last:
  assumes "set bs \<subseteq> {log_button, linear_button}" and "bs \<noteq> []"
  shows "press_all bs g = press (last bs) g"
  using assms
proof (induction bs arbitrary: g)
  case Nil
  then show ?case by simp
next
  case (Cons b bs)
  from Cons.prems obtain v where
    v: "\<And>h :: 'a figure. press b h = Some (h\<lparr>layout := AList.update ''yaxis.type'' v (layout h)\<rparr>)"
    using press_toggle [of b] by auto
  show ?case
  proof (cases "bs = []")
    case True
    then show ?thesis by (simp add: v)
  next
    case False
    then have "last bs \<in> set bs" by simp
    with Cons.prems have "last bs \<in> {log_button, linear_button}"
      by (simp add: subset_iff)
    then obtain w where
      w: "\<And>h :: 'a figure. press (last bs) h =
            Some (h\<lparr>layout := AList.update ''yaxis.type'' w (layout h)\<rparr>)"
      using press_toggle [of "last bs"] by auto
    from False Cons have "press_all (b # bs) g
        = press (last bs) (g\<lparr>layout := AList.update ''yaxis.type'' v (layout g)\<rparr>)"
      by (simp add: v)
    also have "\<dots> = press (last bs) g"
      by (simp add: w)
    finally show ?thesis using False by simp
  qed
qed

lemma menu_buttons_total_growth:
  assumes "total_growth_fig to_datetime df = Inr fig"
  shows "menu_buttons fig = [log_button, linear_button]"
    and "map_of (layout fig) ''yaxis.type'' = Some (PStr ''log'')"
proof -
  from assms have l: "layout fig = total_growth_layout @ [(''updatemenus'', total_growth_updatemenus)]"
    by (auto simp: total_growth_fig_def getattr_col_def add_traces_def update_layout_def
        Figure_def set_props_def total_growth_layout_def split: option.splits)
  show "menu_buttons fig = [log_button, linear_button]"
    by (simp add: l menu_buttons_def total_growth_layout_def total_growth_updatemenus_def)
  show "map_of (layout fig) ''yaxis.type'' = Some (PStr ''log'')"
    by (simp add: l total_growth_layout_def)
qed

text \<open>
  C6. The layout of the figure of \<^verbatim>\<open>total_growth\<close> declares a logarithmic y axis, and its
  dropdown holds the two buttons Logarithmic and Linear. Pressing these in any sequence
  succeeds and gives a figure with the same traces (so the same x and y values of all
  three series) and the same layout but for the entry \<open>yaxis.type\<close>, which is \<open>log\<close> or
  \<open>linear\<close>. A sequence of presses gives what its last press alone gives; so pressing a
  button twice, on any figure, is pressing it once, whatever was pressed before.
\<close>

theorem total_growth_toggle_frame:
  fixes fig :: "'c figure"
  assumes "total_growth_fig to_datetime df = Inr fig"
    and "set bs \<subseteq> set (menu_buttons fig)"
  shows "map_of (layout fig) ''yaxis.type'' = Some (PStr ''log'')
       \<and> menu_buttons fig = [log_button, linear_button]
       \<and> (\<exists>fig'. press_all bs fig = Some fig'
             \<and> traces fig' = traces fig
             \<and> map arrays (traces fig') = map arrays (traces fig)
             \<and> (\<forall>k. k \<noteq> ''yaxis.type'' \<longrightarrow> map_of (layout fig') k = map_of (layout fig) k)
             \<and> map_of (layout fig') ''yaxis.type'' \<in> {Some (PStr ''log''), Some (PStr ''linear'')})
       \<and> (bs \<noteq> [] \<longrightarrow> press_all bs fig = press_all [last bs] fig)
       \<and> (\<forall>b \<in> set (menu_buttons fig). \<forall>g :: 'c figure.
             press_all [b, b] g = press_all [b] g \<and> press_all (bs @ [b, b]) g = press_all (bs @ [b]) g)"
proof -
  note m = menu_buttons_total_growth [OF assms(1)]
  from assms(2) m have bs: "set bs \<subseteq> {log_button, linear_button}" by simp
  have frame: "\<exists>fig'. press_all bs fig = Some fig'
             \<and> traces fig' = traces fig
             \<and> map arrays (traces fig') = map arrays (traces fig)
             \<and> (\<forall>k. k \<noteq> ''yaxis.type'' \<longrightarrow> map_of (layout fig') k = map_of (layout fig) k)
             \<and> map_of (layout fig') ''yaxis.type'' \<in> {Some (PStr ''log''), Some (PStr ''linear'')}"
  proof (cases "bs = []")
    case True
    then show ?thesis by (simp add: m)
  next
    case False
    then have "last bs \<in> set bs" by simp
    with bs have "last bs \<in> {log_button, linear_button}"
      by (simp add: subset_iff)
    then obtain v where v: "v \<in> {PStr ''log'', PStr ''linear''}"
      "\<And>h :: 'c figure. press (last bs) h =
            Some (h\<lparr>layout := AList.update ''yaxis.type'' v (layout h)\<rparr>)"
      using press_toggle [of "last bs"] by blast
    have "press_all bs fig = Some (fig\<lparr>layout := AList.update ''yaxis.type'' v (layout fig)\<rparr>)"
      using press_all_last [OF bs False, of fig] v(2) [of fig] by simp
    with v(1) show ?thesis by (auto simp: update_conv')
  qed
  have last: "bs \<noteq> [] \<longrightarrow> press_all bs fig = press_all [last bs] fig"
    using press_all_last [OF bs, of fig] by (simp split: option.splits)
  have idem: "\<forall>b \<in> set (menu_buttons fig). \<forall>g :: 'c figure.
             press_all [b, b] g = press_all [b] g \<and> press_all (bs @ [b, b]) g = press_all (bs @ [b]) g"
  proof (intro ballI allI)
    fix b and g :: "'c figure"
    assume "b \<in> set (menu_buttons fig)"
    with m have b: "b \<in> {log_button, linear_button}" by simp
    with bs have 1: "set [b, b] \<subseteq> {log_button, linear_button}"
      and 2: "set (bs @ [b, b]) \<subseteq> {log_button, linear_button}"
      and 3: "set (bs @ [b]) \<subseteq> {log_button, linear_button}" and 4: "set [b] \<subseteq> {log_button, linear_button}"
      by auto
    show "press_all [b, b] g = press_all [b] g \<and> press_all (bs @ [b, b]) g = press_all (bs @ [b]) g"
      using press_all_last [OF 1, of g] press_all_last [OF 2, of g] press_all_last [OF 3, of g]
        press_all_last [OF 4, of g]
      by simp
  qed
  from m frame last idem show ?thesis by blast
qed

theorem total_growth_toggle_frame_witness:
  "\<exists>fig fig'. total_growth_fig (\<lambda>ls. Some (map PStr ls))
            \<lparr>index = [''1/22/20'', ''1/23/20''],
             columns = [(''Confirmed'', [PInt 555, PInt 654]),
                        (''Recovered'', [PInt 28, PInt 30]),
                        (''Deaths'', [PInt 17, PInt 18])]\<rparr> = Inr fig
     \<and> press_all [linear_button, log_button, linear_button] fig = Some fig'
     \<and> traces fig' = traces fig
     \<and> press_all [linear_button, log_button, linear_button] fig = press_all [linear_button] fig
     \<and> press_all [log_button, log_button] fig = press_all [log_button] fig"
proof -
  obtain fig where f: "total_growth_fig (\<lambda>ls. Some (map PStr ls))
            \<lparr>index = [''1/22/20'', ''1/23/20''],
             columns = [(''Confirmed'', [PInt 555, PInt 654]),
                        (''Recovered'', [PInt 28, PInt 30]),
                        (''Deaths'', [PInt 17, PInt 18])]\<rparr> = Inr (fig :: pval figure)"
    by (simp add: total_growth_fig_def getattr_col_def)
  have b: "set [linear_button, log_button, linear_button] \<subseteq> set (menu_buttons fig)"
    by (simp add: menu_buttons_total_growth(1) [OF f])
  note t = total_growth_toggle_frame [OF f b]
  from t obtain fig' where
    p: "press_all [linear_button, log_button, linear_button] fig = Some fig'"
       "traces fig' = traces fig"
    by blast
  from t have
    l: "press_all [linear_button, log_button, linear_button] fig = press_all [linear_button] fig"
    by (simp del: press_all.simps)
  from t have i: "press_all [log_button, log_button] fig = press_all [log_button] fig"
    by (simp del: press_all.simps)
  from f p l i show ?thesis by blast
qed

section \<open>Properties of daily_growth\<close>

lemma getitem_cols_date_World:
  assumes "map_of (columns df) ''date'' = Some xs"
    and "map_of (columns df) ''World'' = Some ys"
  shows "getitem_cols df [''date'', ''World'']
           = Inr (df\<lparr>columns := [(''date'', xs), (''World'', ys)]\<rparr>)"
  using assms by (simp add: getitem_cols_def List.map_filter_simps)

lemma daily_growth_fig_ok:
  assumes "map_of (columns cases) ''date'' = Some cx"
    and "map_of (columns cases) ''World'' = Some cy"
    and "map_of (columns deaths) ''date'' = Some dx"
    and "map_of (columns deaths) ''World'' = Some dy"
  shows "daily_growth_fig cases deaths =
           Inr \<lparr>layout = daily_growth_layout
                   @ [(''xaxis.rangeselector.buttons'', PList rangeselector_buttons),
                      (''yaxis.gridcolor'', PStr ''#fff'')],
                traces = [daily_cases_trace cx cy, daily_deaths_trace dx dy]\<rparr>"
  using assms
  by (simp add: daily_growth_fig_def getitem_cols_date_World getattr_col_def add_traces_def
      update_xaxes_def update_yaxes_def update_layout_def Figure_def set_props_def
      daily_growth_layout_def)

text \<open>
  C4. On two tables that each have the columns \<^verbatim>\<open>date\<close> and \<^verbatim>\<open>World\<close>, \<^verbatim>\<open>daily_growth\<close>
  plots a stacked bar figure of two traces: first Cases, whose \<open>visible\<close> attribute is
  \<^verbatim>\<open>legendonly\<close>, then Deaths, which sets no \<open>visible\<close> attribute and is therefore drawn.
  The x and y arrays of each trace are the \<^verbatim>\<open>date\<close> and \<^verbatim>\<open>World\<close> columns of its table as
  they are; the visibility is an attribute beside them.
\<close>

theorem daily_growth_series:
  assumes "map_of (columns cases) ''date'' = Some cx"
    and "map_of (columns cases) ''World'' = Some cy"
    and "map_of (columns deaths) ''date'' = Some dx"
    and "map_of (columns deaths) ''World'' = Some dy"
  shows "\<exists>fig. daily_growth_fig cases deaths = Inr fig
           \<and> fst (daily_growth plot cases deaths) = Inr (Some (plot fig plot_args))
           \<and> map trace_name (traces fig) = [Some (PStr ''Cases''), Some (PStr ''Deaths'')]
           \<and> map (\<lambda>t. trace_attr t ''visible'') (traces fig)
               = [Some (PStr ''legendonly''), None]
           \<and> map arrays (traces fig)
               = [[(''x'', cx), (''y'', cy)], [(''x'', dx), (''y'', dy)]]
           \<and> map_of (layout fig) ''barmode'' = Some (PStr ''stack'')"
  by (simp add: daily_growth_fig_ok [OF assms] daily_growth_def trace_name_def trace_attr_def
      daily_cases_trace_def daily_deaths_trace_def daily_growth_layout_def)

theorem daily_growth_series_witness:
  "\<exists>fig. daily_growth_fig
            \<lparr>index = [0 :: int, 1],
             columns = [(''date'', [PStr ''2020-01-23'', PStr ''2020-01-24'']),
                        (''World'', [PInt 99, PInt 287]),
                        (''China'', [PInt 95, PInt 277])]\<rparr>
            \<lparr>index = [0 :: int, 1],
             columns = [(''date'', [PStr ''2020-01-23'', PStr ''2020-01-24'']),
                        (''World'', [PInt 1, PInt 8])]\<rparr> = Inr fig
         \<and> map (\<lambda>t. trace_attr t ''visible'') (traces fig)
               = [Some (PStr ''legendonly''), None]
         \<and> map arrays (traces fig)
               = [[(''x'', [PStr ''2020-01-23'', PStr ''2020-01-24'']),
                   (''y'', [PInt 99, PInt 287])],
                  [(''x'', [PStr ''2020-01-23'', PStr ''2020-01-24'']),
                   (''y'', [PInt 1, PInt 8])]]"
  using daily_growth_series [of
            "\<lparr>index = [0 :: int, 1],
             columns = [(''date'', [PStr ''2020-01-23'', PStr ''2020-01-24'']),
                        (''World'', [PInt 99, PInt 287]),
                        (''China'', [PInt 95, PInt 277])]\<rparr>"
            "[PStr ''2020-01-23'', PStr ''2020-01-24'']" "[PInt 99, PInt 287]"
            "\<lparr>index = [0 :: int, 1],
             columns = [(''date'', [PStr ''2020-01-23'', PStr ''2020-01-24'']),
                        (''World'', [PInt 1, PInt 8])]\<rparr>"
            "[PStr ''2020-01-23'', PStr ''2020-01-24'']" "[PInt 1, PInt 8]" "\<lambda>f a. ()"]
  by auto

text \<open>
  The range selector of the x axis of \<^verbatim>\<open>daily_growth\<close> holds exactly four presets, in this
  order: 7 days backward, 1 month backward, 3 months backward, and all.
\<close>

theorem daily_growth_range_presets:
  assumes "daily_growth_fig cases deaths = Inr fig"
  shows "map_of (layout fig) ''xaxis.rangeselector.buttons'' =
           Some (PList
             [PDict [(''count'', PInt 7), (''label'', PStr ''W''), (''step'', PStr ''day''),
                     (''stepmode'', PStr ''backward'')],
              PDict [(''count'', PInt 1), (''label'', PStr ''M''), (''step'', PStr ''month''),
                     (''stepmode'', PStr ''backward'')],
              PDict [(''count'', PInt 3), (''label'', PStr ''3M''), (''step'', PStr ''month''),
                     (''stepmode'', PStr ''backward'')],
              PDict [(''label'', PStr ''T''), (''step'', PStr ''all'')]])"
proof -
  from assms obtain cx cy dx dy where "map_of (columns cases) ''date'' = Some cx"
    "map_of (columns cases) ''World'' = Some cy" "map_of (columns deaths) ''date'' = Some dx"
    "map_of (columns deaths) ''World'' = Some dy"
    by (auto simp: daily_growth_fig_def getitem_cols_def split: if_splits option.splits)
  from daily_growth_fig_ok [OF this] assms show ?thesis
    by (auto simp: daily_growth_layout_def rangeselector_buttons_def)
qed

theorem daily_growth_range_presets_witness:
  "\<exists>fig bs. daily_growth_fig
            \<lparr>index = [0 :: int, 1],
             columns = [(''date'', [PStr ''2020-01-23'', PStr ''2020-01-24'']),
                        (''World'', [PInt 99, PInt 287])]\<rparr>
            \<lparr>index = [0 :: int, 1],
             columns = [(''date'', [PStr ''2020-01-23'', PStr ''2020-01-24'']),
                        (''World'', [PInt 1, PInt 8])]\<rparr> = Inr fig
         \<and> map_of (layout fig) ''xaxis.rangeselector.buttons'' = Some (PList bs)
         \<and> length bs = 4"
proof -
  obtain fig :: "pval figure" where f: "daily_growth_fig
            \<lparr>index = [0 :: int, 1],
             columns = [(''date'', [PStr ''2020-01-23'', PStr ''2020-01-24'']),
                        (''World'', [PInt 99, PInt 287])]\<rparr>
            \<lparr>index = [0 :: int, 1],
             columns = [(''date'', [PStr ''2020-01-23'', PStr ''2020-01-24'']),
                        (''World'', [PInt 1, PInt 8])]\<rparr> = Inr fig"
    by (simp add: daily_growth_fig_ok)
  from daily_growth_range_presets [OF f] f show ?thesis
    by (intro exI) auto
qed

section \<open>Properties of world_map\<close>

lemma world_map_fig_ok:
  assumes "map_of (columns df) ''Lat'' = Some lat"
    and "map_of (columns df) ''Long_'' = Some lon"
    and "map_of (columns df) ''Confirmed'' = Some conf"
    and "map_of (columns df) ''Country_Region'' = Some names"
    and "map_of (columns df) ''Combined_Key'' = Some keys"
  shows "world_map_fig df =
     Inr \<lparr>layout = [(''mapbox.zoom'', PInt 1),
                    (''mapbox.center.lat'', PDec 200 1), (''mapbox.center.lon'', PDec (- 200) 1),
                    (''height'', PInt 450),
                    (''mapbox.style'', PStr ''carto-positron''),
                    (''paper_bgcolor'', PStr ''rgba(0,0,0,0)''),
                    (''margin.t'', PInt 0), (''margin.l'', PInt 0),
                    (''margin.r'', PInt 0), (''margin.b'', PInt 0)],
          traces = [\<lparr>trace_type = ''scattermapbox'',
                     arrays = [(''lat'', lat), (''lon'', lon), (''color'', conf), (''size'', conf),
                               (''hover_name'', names), (''hover_data.0'', keys),
                               (''hover_data.1'', conf)],
                     attrs = [(''labels.Combined_Key'', PStr ''loc'')]\<rparr>]\<rparr>"
  using assms
  by (simp add: world_map_fig_def scatter_mapbox_def world_map_channels_def
      List.map_filter_simps update_layout_def Figure_def set_props_def)

text \<open>
  C7. On a table with the columns the call names, \<^verbatim>\<open>world_map\<close> plots one trace whose
  size array and whose colour array are both the Confirmed column, row by row. So for any
  two rows, if the Confirmed count of the first is at most that of the second, so are its
  size and its colour value.
\<close>

theorem world_map_size_color_monotone:
  fixes df :: "('l, 'c :: linorder) dataframe"
  assumes "map_of (columns df) ''Lat'' = Some lat"
    and "map_of (columns df) ''Long_'' = Some lon"
    and "map_of (columns df) ''Confirmed'' = Some conf"
    and "map_of (columns df) ''Country_Region'' = Some names"
    and "map_of (columns df) ''Combined_Key'' = Some keys"
  shows "\<exists>fig t size color.
           world_map_fig df = Inr fig
         \<and> fst (world_map plot df)
             = Inr (Some (plot fig ((''include_plotlyjs'', PBool False) # plot_args)))
         \<and> traces fig = [t]
         \<and> trace_array t ''size'' = Some size
         \<and> trace_array t ''color'' = Some color
         \<and> length size = length conf \<and> length color = length conf
         \<and> (\<forall>i j. i < length conf \<and> j < length conf \<and> conf ! i \<le> conf ! j
               \<longrightarrow> size ! i \<le> size ! j \<and> color ! i \<le> color ! j)"
  by (simp add: world_map_fig_ok [OF assms] world_map_def trace_array_def)

theorem world_map_size_color_monotone_witness:
  "\<exists>fig t. world_map_fig
        \<lparr>index = [0 :: int, 1, 2],
         columns = [(''Lat'', [33 :: int, 41, - 25]), (''Long_'', [65, 20, 133]),
                    (''Confirmed'', [40, 900, 7]), (''Country_Region'', [1, 2, 3]),
                    (''Combined_Key'', [1, 2, 3])]\<rparr> = Inr fig
      \<and> traces fig = [t]
      \<and> trace_array t ''size'' = Some [40, 900, 7]
      \<and> trace_array t ''color'' = Some [40, 900, 7]"
  using world_map_size_color_monotone [of
        "\<lparr>index = [0 :: int, 1, 2],
         columns = [(''Lat'', [33 :: int, 41, - 25]), (''Long_'', [65, 20, 133]),
                    (''Confirmed'', [40, 900, 7]), (''Country_Region'', [1, 2, 3]),
                    (''Combined_Key'', [1, 2, 3])]\<rparr>"
        "[33, 41, - 25]" "[65, 20, 133]" "[40, 900, 7]" "[1, 2, 3]" "[1, 2, 3]" "\<lambda>f a. ()"]
  by (simp add: world_map_fig_ok trace_array_def)

section \<open>The tables after a call\<close>

text \<open>
  C3. The claim that no chart builder changes its table fails for \<^verbatim>\<open>usa_map\<close>, whose
  \<^verbatim>\<open>drop(..., inplace=True)\<close> removes rows from the table it was given: after the call on
  a table of three counties, one of them labelled 2311, the table has two rows.
\<close>

theorem usa_map_mutates_table:
  "snd (usa_map ''#000000'' (Inr (PDict []))
          \<lparr>index = [2310, 2311, 2312],
           columns = [(''fips'', [PStr ''46135'', PStr ''46102'', PStr ''47001'']),
                      (''cases/capita'', [PDec 12 4, PDec 0 1, PDec 31 4])]\<rparr>
        :: (error + unit option) \<times> (int, pval) dataframe)
     \<noteq> \<lparr>index = [2310, 2311, 2312],
         columns = [(''fips'', [PStr ''46135'', PStr ''46102'', PStr ''47001'']),
                    (''cases/capita'', [PDec 12 4, PDec 0 1, PDec 31 4])]\<rparr>"
  by (simp add: usa_map_table usa_map_fig_table)

text \<open>
  C3, amended. \<^verbatim>\<open>total_growth\<close>, \<^verbatim>\<open>daily_growth\<close> and \<^verbatim>\<open>world_map\<close> leave their tables as
  they were, whatever the call returns or raises. \<^verbatim>\<open>usa_map\<close>, once the boundaries are
  fetched and when its table has a row labelled 2311, removes the rows labelled 2311 from
  the table and changes nothing else: the other rows keep their labels, their cells and
  their order, and the columns their names. When the download fails or no row is labelled
  2311 the table is left as it was.
\<close>

theorem tables_after_call:
  "snd (total_growth plot1 to_datetime df1) = df1
   \<and> snd (daily_growth plot2 cases deaths) = (cases, deaths)
   \<and> snd (world_map plot3 df3) = df3
   \<and> snd (usa_map last_color fetched df4 :: (error + 'm option) \<times> (int, 'c) dataframe) =
       (case fetched of
          Inl e \<Rightarrow> df4
        | Inr counties \<Rightarrow>
            if 2311 \<in> set (index df4)
            then \<lparr>index = filter (\<lambda>l. l \<noteq> 2311) (index df4),
                  columns = map (\<lambda>(c, vs). (c, rows_without 2311 (index df4) vs)) (columns df4)\<rparr>
            else df4)"
  by (simp add: total_growth_def daily_growth_def world_map_def usa_map_table
      usa_map_fig_table split: sum.splits)

theorem tables_after_call_witness:
  "snd (usa_map ''#000000'' (Inr (PDict []))
          \<lparr>index = [2310, 2311, 2312],
           columns = [(''fips'', [PStr ''46135'', PStr ''46102'', PStr ''47001'']),
                      (''cases/capita'', [PDec 12 4, PDec 0 1, PDec 31 4])]\<rparr>
        :: (error + unit option) \<times> (int, pval) dataframe)
     = \<lparr>index = [2310, 2312],
        columns = [(''fips'', [PStr ''46135'', PStr ''47001'']),
                   (''cases/capita'', [PDec 12 4, PDec 31 4])]\<rparr>
   \<and> snd (usa_map ''#000000'' (Inr (PDict []))
          \<lparr>index = [0, 1],
           columns = [(''fips'', [PStr ''01001'', PStr ''01003'']),
                      (''cases/capita'', [PDec 12 4, PDec 31 4])]\<rparr>
        :: (error + unit option) \<times> (int, pval) dataframe)
     = \<lparr>index = [0, 1],
        columns = [(''fips'', [PStr ''01001'', PStr ''01003'']),
                   (''cases/capita'', [PDec 12 4, PDec 31 4])]\<rparr>
   \<and> snd (world_map (\<lambda>f a. ())
          \<lparr>index = [0 :: int], columns = [(''Lat'', [33 :: int])]\<rparr>)
     = \<lparr>index = [0], columns = [(''Lat'', [33])]\<rparr>"
  using tables_after_call [where ?'m = unit,
      of "\<lambda>f a. ()" "\<lambda>ls. Some ls"
         "\<lparr>index = [0 :: int], columns = [(''Lat'', [33 :: int])]\<rparr>"
         "\<lambda>f a. ()"
         "\<lparr>index = [0 :: int], columns = [(''Lat'', [33 :: int])]\<rparr>"
         "\<lparr>index = [0 :: int], columns = [(''Lat'', [33 :: int])]\<rparr>"
         "\<lambda>f a. ()"
         "\<lparr>index = [0 :: int], columns = [(''Lat'', [33 :: int])]\<rparr>"
         "''#000000''" "Inr (PDict [])"
         "\<lparr>index = [2310, 2311, 2312],
           columns = [(''fips'', [PStr ''46135'', PStr ''46102'', PStr ''47001'']),
                      (''cases/capita'', [PDec 12 4, PDec 0 1, PDec 31 4])]\<rparr>"]
    tables_after_call [where ?'m = unit,
      of "\<lambda>f a. ()" "\<lambda>ls. Some ls"
         "\<lparr>index = [0 :: int], columns = [(''Lat'', [33 :: int])]\<rparr>"
         "\<lambda>f a. ()"
         "\<lparr>index = [0 :: int], columns = [(''Lat'', [33 :: int])]\<rparr>"
         "\<lparr>index = [0 :: int], columns = [(''Lat'', [33 :: int])]\<rparr>"
         "\<lambda>f a. ()"
         "\<lparr>index = [0 :: int], columns = [(''Lat'', [33 :: int])]\<rparr>"
         "''#000000''" "Inr (PDict [])"
         "\<lparr>index = [0, 1],
           columns = [(''fips'', [PStr ''01001'', PStr ''01003'']),
                      (''cases/capita'', [PDec 12 4, PDec 31 4])]\<rparr>"]
  by (simp add: rows_without_def)

section \<open>Calendar facts\<close>

lemma days_before_month_table:
  "days_before_month y (Suc 0) = 0"
  "days_before_month y (Suc (Suc 0)) = 31"
  "days_before_month y 1 = 0"
  "days_before_month y 2 = 31"
  "days_before_month y 3 = 59 + (if leap_year y then 1 else 0)"
  "days_before_month y 4 = 90 + (if leap_year y then 1 else 0)"
  "days_before_month y 5 = 120 + (if leap_year y then 1 else 0)"
  "days_before_month y 6 = 151 + (if leap_year y then 1 else 0)"
  "days_before_month y 7 = 181 + (if leap_year y then 1 else 0)"
  "days_before_month y 8 = 212 + (if leap_year y then 1 else 0)"
  "days_before_month y 9 = 243 + (if leap_year y then 1 else 0)"
  "days_before_month y 10 = 273 + (if leap_year y then 1 else 0)"
  "days_before_month y 11 = 304 + (if leap_year y then 1 else 0)"
  "days_before_month y 12 = 334 + (if leap_year y then 1 else 0)"
  by (simp_all add: days_before_month_def days_in_month_def numeral_eq_Suc)

lemma div_step:
  fixes z n :: int
  assumes "0 < n"
  shows "z div n - (z - 1) div n = (if z mod n = 0 then 1 else 0)"
proof (cases "z mod n = 0")
  case True
  have e: "z - 1 = n * (z div n - 1) + (n - 1)"
    using True by (simp add: algebra_simps mod_eq_0_iff_dvd)
  have "(z - 1) div n = z div n - 1"
    by (rule int_div_pos_eq [OF e]) (use assms in simp_all)
  with True show ?thesis by simp
next
  case False
  have r: "0 \<le> z mod n" "z mod n < n" using assms by simp_all
  have e: "z - 1 = n * (z div n) + (z mod n - 1)"
    by (simp add: algebra_simps)
  have "(z - 1) div n = z div n"
    by (rule int_div_pos_eq [OF e]) (use r False in simp_all)
  with False show ?thesis by simp
qed

lemma leap_count:
  "(c \<longrightarrow> b) \<Longrightarrow> (b \<longrightarrow> a) \<Longrightarrow>
   (if a then 1 else 0) - (if b then 1 else 0) + (if c then 1 else 0)
     = (if a \<and> (\<not> b \<or> c) then (1 :: int) else 0)"
  by (cases a; cases b; cases c) simp_all

lemma diff_to_sum: "(a :: int) - b = c + l \<Longrightarrow> a = b + c + l"
  by simp

lemma year_diff_alg:
  "(365 * (y :: int) + a - b + c) - (365 * (y - 1) + a' - b' + c')
     = 365 + ((a - a') - (b - b') + (c - c'))"
  by (simp add: algebra_simps)

lemma mod_400_100: "(y :: int) mod 400 = 0 \<longrightarrow> y mod 100 = 0"
proof
  assume "y mod 400 = 0"
  then have "400 dvd y" by (simp only: mod_eq_0_iff_dvd)
  moreover have "(100 :: int) dvd 400" by simp
  ultimately have "100 dvd y" using dvd_trans by blast
  then show "y mod 100 = 0" by (simp only: mod_eq_0_iff_dvd)
qed

lemma mod_100_4: "(y :: int) mod 100 = 0 \<longrightarrow> y mod 4 = 0"
proof
  assume "y mod 100 = 0"
  then have "100 dvd y" by (simp only: mod_eq_0_iff_dvd)
  moreover have "(4 :: int) dvd 100" by simp
  ultimately have "4 dvd y" using dvd_trans by blast
  then show "y mod 4 = 0" by (simp only: mod_eq_0_iff_dvd)
qed

text \<open>A year has 365 days, and one more when it is a leap year.\<close>

lemma days_before_year_step:
  "days_before_year (y + 1) = days_before_year y + 365 + (if leap_year y then 1 else 0)"
proof -
  have d: "days_before_year (y + 1) - days_before_year y
      = 365 + ((y div 4 - (y - 1) div 4) - (y div 100 - (y - 1) div 100)
          + (y div 400 - (y - 1) div 400))"
    unfolding days_before_year_def add_diff_cancel_right' by (rule year_diff_alg)
  have s4: "y div 4 - (y - 1) div 4 = (if y mod 4 = 0 then 1 else 0)"
    by (rule div_step) simp
  have s100: "y div 100 - (y - 1) div 100 = (if y mod 100 = 0 then 1 else 0)"
    by (rule div_step) simp
  have s400: "y div 400 - (y - 1) div 400 = (if y mod 400 = 0 then 1 else 0)"
    by (rule div_step) simp
  have l: "(y div 4 - (y - 1) div 4) - (y div 100 - (y - 1) div 100)
          + (y div 400 - (y - 1) div 400) = (if leap_year y then 1 else 0)"
    unfolding s4 s100 s400 leap_year_def
    by (rule leap_count [OF mod_400_100 mod_100_4])
  show ?thesis by (rule diff_to_sum) (simp only: d l)
qed

lemma days_before_year_prev:
  "days_before_year (y - 1) = days_before_year y - 365 - (if leap_year (y - 1) then 1 else 0)"
  using days_before_year_step [of "y - 1"] by (simp only: diff_add_cancel)

lemma month_cases:
  assumes "1 \<le> m" and "m \<le> 12"
  shows "m = 1 \<or> m = 2 \<or> m = 3 \<or> m = 4 \<or> m = 5 \<or> m = 6
       \<or> m = 7 \<or> m = 8 \<or> m = 9 \<or> m = 10 \<or> m = 11 \<or> m = (12 :: nat)"
  using assms by arith

text \<open>
  One month back is as many days back as the month before has; three months back, as
  many as the three months before have together.
\<close>

lemma month_span_1:
  assumes "1 \<le> m" and "m \<le> 12"
  shows "day_number (Date y m d) - day_number (month_offset (- 1) (Date y m d))
           = month_length (month_offset (- 1) (Date y m d))"
  using month_cases [OF assms]
  by (elim disjE)
     (simp_all add: days_before_month_table days_before_year_prev days_in_month_def)

lemma month_span_3:
  assumes "1 \<le> m" and "m \<le> 12"
  shows "day_number (Date y m d) - day_number (month_offset (- 3) (Date y m d))
           = month_length (month_offset (- 1) (Date y m d))
           + month_length (month_offset (- 2) (Date y m d))
           + month_length (month_offset (- 3) (Date y m d))"
  using month_cases [OF assms]
  by (elim disjE)
     (simp_all add: days_before_month_table days_before_year_prev days_in_month_def)

lemma month_span_1_bounds:
  assumes "1 \<le> m" and "m \<le> 12"
  shows "28 \<le> day_number (Date y m d) - day_number (month_offset (- 1) (Date y m d))"
    and "day_number (Date y m d) - day_number (month_offset (- 1) (Date y m d)) \<le> 31"
  using month_cases [OF assms]
  by (elim disjE;
      simp add: days_before_month_table days_before_year_prev days_in_month_def)+

lemma month_span_3_bounds:
  assumes "1 \<le> m" and "m \<le> 12"
  shows "89 \<le> day_number (Date y m d) - day_number (month_offset (- 3) (Date y m d))"
    and "day_number (Date y m d) - day_number (month_offset (- 3) (Date y m d)) \<le> 92"
  using month_cases [OF assms]
  by (elim disjE;
      simp add: days_before_month_table days_before_year_prev days_in_month_def)+

lemma day_span: "day_number dt - day_number (day_offset (- k) dt) = k"
  by (cases dt) simp

section \<open>The range of the dates drawn\<close>

lemma latest_greatest:
  "latest best ds \<in> set (best # ds)
   \<and> (\<forall>x \<in> set (best # ds). day_number x \<le> day_number (latest best ds))"
proof (induction ds arbitrary: best)
  case Nil
  show ?case by simp
next
  case (Cons d ds)
  show ?case
    using Cons.IH [of "if day_number best < day_number d then d else best"]
    by (auto split: if_splits)
qed

lemma earliest_least:
  "earliest best ds \<in> set (best # ds)
   \<and> (\<forall>x \<in> set (best # ds). day_number (earliest best ds) \<le> day_number x)"
proof (induction ds arbitrary: best)
  case Nil
  show ?case by simp
next
  case (Cons d ds)
  show ?case
    using Cons.IH [of "if day_number d < day_number best then d else best"]
    by (auto split: if_splits)
qed

lemma autorange_bounds:
  assumes "autorange ds = Some (lo, hi)"
  shows "lo \<in> set ds" and "hi \<in> set ds"
    and "\<forall>x \<in> set ds. day_number lo \<le> day_number x \<and> day_number x \<le> day_number hi"
proof -
  from assms obtain d ds' where ds: "ds = d # ds'" and lo: "lo = earliest d ds'"
    and hi: "hi = latest d ds'"
    by (auto simp: autorange_def split: list.splits)
  show "lo \<in> set ds" using earliest_least [of d ds'] by (simp add: ds lo)
  show "hi \<in> set ds" using latest_greatest [of d ds'] by (simp add: ds hi)
  show "\<forall>x \<in> set ds. day_number lo \<le> day_number x \<and> day_number x \<le> day_number hi"
    using earliest_least [of d ds'] latest_greatest [of d ds'] by (simp add: ds lo hi)
qed

section \<open>The range selector of daily_growth\<close>

lemma daily_growth_fig_columns:
  assumes "daily_growth_fig cases deaths = Inr fig"
  shows "\<exists>cx cy dx dy.
           map_of (columns cases) ''date'' = Some cx \<and> map_of (columns cases) ''World'' = Some cy
         \<and> map_of (columns deaths) ''date'' = Some dx \<and> map_of (columns deaths) ''World'' = Some dy"
  using assms
  by (auto simp: daily_growth_fig_def getitem_cols_def split: if_splits option.splits)

lemma daily_growth_drawn_dates:
  assumes "daily_growth_fig cases deaths = Inr fig"
    and "map_of (columns deaths) ''date'' = Some dx"
  shows "drawn_dates as_date fig = map as_date dx"
proof -
  from daily_growth_fig_columns [OF assms(1)] assms(2) obtain cx cy dy where
    "map_of (columns cases) ''date'' = Some cx" "map_of (columns cases) ''World'' = Some cy"
    "map_of (columns deaths) ''date'' = Some dx" "map_of (columns deaths) ''World'' = Some dy"
    by auto
  from daily_growth_fig_ok [OF this] assms(1)
  have "traces fig = [daily_cases_trace cx cy, daily_deaths_trace dx dy]" by auto
  then show ?thesis
    by (simp add: drawn_dates_def drawn_def trace_attr_def trace_array_def
        daily_cases_trace_def daily_deaths_trace_def)
qed

lemma range_presets_of_daily_growth:
  assumes "daily_growth_fig cases deaths = Inr fig"
  shows "range_presets fig = rangeselector_buttons"
proof -
  from daily_growth_fig_columns [OF assms] obtain cx cy dx dy where
    "map_of (columns cases) ''date'' = Some cx" "map_of (columns cases) ''World'' = Some cy"
    "map_of (columns deaths) ''date'' = Some dx" "map_of (columns deaths) ''World'' = Some dy"
    by auto
  from daily_growth_fig_ok [OF this] assms
  have "layout fig = daily_growth_layout
                   @ [(''xaxis.rangeselector.buttons'', PList rangeselector_buttons),
                      (''yaxis.gridcolor'', PStr ''#fff'')]" by auto
  then show ?thesis
    by (simp add: range_presets_def daily_growth_layout_def)
qed

lemma select_rangeselector_buttons:
  "map (\<lambda>b. select_preset b full (cur, hi)) rangeselector_buttons
     = [Some (day_offset (- 7) hi, hi), Some (month_offset (- 1) hi, hi),
        Some (month_offset (- 3) hi, hi), Some full]"
  by (simp add: rangeselector_buttons_def select_preset_def)

text \<open>
  C5. The range selector of the x axis of \<^verbatim>\<open>daily_growth\<close> holds exactly four presets, in
  this order: 7 days backward, 1 month backward, 3 months backward, and all. The dates
  drawn are those of the deaths table (the cases trace is not drawn at first). When the
  earliest of them lies more than three months before the latest, each preset selects,
  whatever the lower end of the current range, a range within the dates drawn that ends
  at the latest date: the first spans 7 days, the second the days of the calendar month
  before (28 to 31), the third the days of the three calendar months before (89 to 92),
  and the last spans from the earliest date to the latest.
\<close>

theorem daily_growth_range_selector:
  fixes as_date :: "'c \<Rightarrow> date" and fig :: "'c figure"
  assumes "daily_growth_fig cases deaths = Inr fig"
    and "autorange (drawn_dates as_date fig) = Some (lo, hi)"
    and "hi = Date y m d" and "1 \<le> m" and "m \<le> 12"
    and "day_number lo < day_number (month_offset (- 3) hi)"
  shows "range_presets fig =
           [PDict [(''count'', PInt 7), (''label'', PStr ''W''), (''step'', PStr ''day''),
                   (''stepmode'', PStr ''backward'')],
            PDict [(''count'', PInt 1), (''label'', PStr ''M''), (''step'', PStr ''month''),
                   (''stepmode'', PStr ''backward'')],
            PDict [(''count'', PInt 3), (''label'', PStr ''3M''), (''step'', PStr ''month''),
                   (''stepmode'', PStr ''backward'')],
            PDict [(''label'', PStr ''T''), (''step'', PStr ''all'')]]
       \<and> (\<exists>dx. map_of (columns deaths) ''date'' = Some dx
             \<and> lo \<in> as_date ` set dx \<and> hi \<in> as_date ` set dx
             \<and> (\<forall>x \<in> set dx. day_number lo \<le> day_number (as_date x)
                                \<and> day_number (as_date x) \<le> day_number hi))
       \<and> (\<exists>r7 r1 r3.
             map (\<lambda>b. select_preset b (lo, hi) (cur, hi)) (range_presets fig)
               = [Some r7, Some r1, Some r3, Some (lo, hi)]
             \<and> snd r7 = hi \<and> snd r1 = hi \<and> snd r3 = hi
             \<and> span r7 = 7
             \<and> span r1 = month_length (month_offset (- 1) hi)
             \<and> span r3 = month_length (month_offset (- 1) hi)
                          + month_length (month_offset (- 2) hi)
                          + month_length (month_offset (- 3) hi)
             \<and> 28 \<le> span r1 \<and> span r1 \<le> 31 \<and> 89 \<le> span r3 \<and> span r3 \<le> 92
             \<and> day_number lo < day_number (fst r3)
             \<and> day_number (fst r3) < day_number (fst r1)
             \<and> day_number (fst r1) < day_number (fst r7)
             \<and> day_number (fst r7) < day_number hi)"
proof (intro conjI)
  show "range_presets fig =
           [PDict [(''count'', PInt 7), (''label'', PStr ''W''), (''step'', PStr ''day''),
                   (''stepmode'', PStr ''backward'')],
            PDict [(''count'', PInt 1), (''label'', PStr ''M''), (''step'', PStr ''month''),
                   (''stepmode'', PStr ''backward'')],
            PDict [(''count'', PInt 3), (''label'', PStr ''3M''), (''step'', PStr ''month''),
                   (''stepmode'', PStr ''backward'')],
            PDict [(''label'', PStr ''T''), (''step'', PStr ''all'')]]"
    by (simp only: range_presets_of_daily_growth [OF assms(1)] rangeselector_buttons_def)
next
  from daily_growth_fig_columns [OF assms(1)] obtain dx where
    dx: "map_of (columns deaths) ''date'' = Some dx" by auto
  note b = autorange_bounds [OF assms(2) [unfolded daily_growth_drawn_dates [OF assms(1) dx]]]
  from dx b show "\<exists>dx. map_of (columns deaths) ''date'' = Some dx
             \<and> lo \<in> as_date ` set dx \<and> hi \<in> as_date ` set dx
             \<and> (\<forall>x \<in> set dx. day_number lo \<le> day_number (as_date x)
                                \<and> day_number (as_date x) \<le> day_number hi)"
    by auto
next
  have s1: "day_number hi - day_number (month_offset (- 1) hi)
              = month_length (month_offset (- 1) hi)"
    unfolding assms(3) by (rule month_span_1 [OF assms(4) assms(5)])
  have s3: "day_number hi - day_number (month_offset (- 3) hi)
              = month_length (month_offset (- 1) hi) + month_length (month_offset (- 2) hi)
                + month_length (month_offset (- 3) hi)"
    unfolding assms(3) by (rule month_span_3 [OF assms(4) assms(5)])
  have b1: "28 \<le> day_number hi - day_number (month_offset (- 1) hi)"
    "day_number hi - day_number (month_offset (- 1) hi) \<le> 31"
    unfolding assms(3) by (rule month_span_1_bounds [OF assms(4) assms(5)])+
  have b3: "89 \<le> day_number hi - day_number (month_offset (- 3) hi)"
    "day_number hi - day_number (month_offset (- 3) hi) \<le> 92"
    unfolding assms(3) by (rule month_span_3_bounds [OF assms(4) assms(5)])+
  have s7: "day_number hi - day_number (day_offset (- 7) hi) = 7"
    by (rule day_span)
  have sel: "map (\<lambda>b. select_preset b (lo, hi) (cur, hi)) (range_presets fig)
     = [Some (day_offset (- 7) hi, hi), Some (month_offset (- 1) hi, hi),
        Some (month_offset (- 3) hi, hi), Some (lo, hi)]"
    by (simp only: range_presets_of_daily_growth [OF assms(1)] select_rangeselector_buttons)
  have ord: "day_number lo < day_number (month_offset (- 3) hi)"
    "day_number (month_offset (- 3) hi) < day_number (month_offset (- 1) hi)"
    "day_number (month_offset (- 1) hi) < day_number (day_offset (- 7) hi)"
    "day_number (day_offset (- 7) hi) < day_number hi"
    using assms(6) b1 b3 s7 by linarith+
  show "\<exists>r7 r1 r3.
             map (\<lambda>b. select_preset b (lo, hi) (cur, hi)) (range_presets fig)
               = [Some r7, Some r1, Some r3, Some (lo, hi)]
             \<and> snd r7 = hi \<and> snd r1 = hi \<and> snd r3 = hi
             \<and> span r7 = 7
             \<and> span r1 = month_length (month_offset (- 1) hi)
             \<and> span r3 = month_length (month_offset (- 1) hi)
                          + month_length (month_offset (- 2) hi)
                          + month_length (month_offset (- 3) hi)
             \<and> 28 \<le> span r1 \<and> span r1 \<le> 31 \<and> 89 \<le> span r3 \<and> span r3 \<le> 92
             \<and> day_number lo < day_number (fst r3)
             \<and> day_number (fst r3) < day_number (fst r1)
             \<and> day_number (fst r1) < day_number (fst r7)
             \<and> day_number (fst r7) < day_number hi"
    apply (rule exI [of _ "(day_offset (- 7) hi, hi)"])
    apply (rule exI [of _ "(month_offset (- 1) hi, hi)"])
    apply (rule exI [of _ "(month_offset (- 3) hi, hi)"])
    apply (simp only: sel span_def fst_conv snd_conv s1 s3 s7 ord)
    apply (insert b1 [unfolded s1] b3 [unfolded s3])
    apply simp
    done
qed

theorem daily_growth_range_selector_witness:
  "\<exists>fig r7 r1 r3.
     daily_growth_fig
       \<lparr>index = [0 :: int, 1, 2],
        columns = [(''date'', [PList [PInt 2020, PInt 1, PInt 22],
                              PList [PInt 2020, PInt 3, PInt 15],
                              PList [PInt 2020, PInt 5, PInt 31]]),
                   (''World'', [PInt 0, PInt 10982, PInt 108767])]\<rparr>
       \<lparr>index = [0 :: int, 1, 2],
        columns = [(''date'', [PList [PInt 2020, PInt 1, PInt 22],
                              PList [PInt 2020, PInt 3, PInt 15],
                              PList [PInt 2020, PInt 5, PInt 31]]),
                   (''World'', [PInt 0, PInt 343, PInt 2872])]\<rparr> = Inr fig
   \<and> map (\<lambda>b. select_preset b (Date 2020 1 22, Date 2020 5 31)
                                   (Date 2020 1 22, Date 2020 5 31)) (range_presets fig)
       = [Some r7, Some r1, Some r3, Some (Date 2020 1 22, Date 2020 5 31)]
   \<and> span r7 = 7 \<and> span r1 = 30 \<and> span r3 = 90"
proof -
  obtain fig :: "pval figure" where f: "daily_growth_fig
       \<lparr>index = [0 :: int, 1, 2],
        columns = [(''date'', [PList [PInt 2020, PInt 1, PInt 22],
                              PList [PInt 2020, PInt 3, PInt 15],
                              PList [PInt 2020, PInt 5, PInt 31]]),
                   (''World'', [PInt 0, PInt 10982, PInt 108767])]\<rparr>
       \<lparr>index = [0 :: int, 1, 2],
        columns = [(''date'', [PList [PInt 2020, PInt 1, PInt 22],
                              PList [PInt 2020, PInt 3, PInt 15],
                              PList [PInt 2020, PInt 5, PInt 31]]),
                   (''World'', [PInt 0, PInt 343, PInt 2872])]\<rparr> = Inr fig"
    by (simp add: daily_growth_fig_ok)
  have dd: "drawn_dates ymd fig = [Date 2020 1 22, Date 2020 3 15, Date 2020 5 31]"
    by (simp add: daily_growth_drawn_dates [OF f] ymd_def)
  have n: "day_number (Date 2020 1 22) = 737446" "day_number (Date 2020 3 15) = 737499"
    "day_number (Date 2020 5 31) = 737576" "day_number (Date 2020 2 31) = 737486"
    "day_number (Date 2020 (Suc 0) 22) = 737446"
    "day_number (Date 2020 (Suc (Suc 0)) 31) = 737486"
    by (simp_all add: days_before_year_def days_before_month_table leap_year_def)
  have a: "autorange (drawn_dates ymd fig) = Some (Date 2020 1 22, Date 2020 5 31)"
    by (simp add: dd autorange_def n del: day_number.simps)
  have l: "day_number (Date 2020 1 22) < day_number (month_offset (- 3) (Date 2020 5 31))"
    by (simp add: n del: day_number.simps)
  have ml: "month_length (month_offset (- 1) (Date 2020 5 31)) = 30"
    "month_length (month_offset (- 2) (Date 2020 5 31)) = 31"
    "month_length (month_offset (- 3) (Date 2020 5 31)) = 29"
    by (simp_all add: days_in_month_def leap_year_def)
  have m: "(1 :: nat) \<le> 5" "(5 :: nat) \<le> 12" by simp_all
  note t = daily_growth_range_selector [OF f a refl m l, of "Date 2020 1 22"]
  from t [THEN conjunct2, THEN conjunct2] obtain r7 r1 r3 where
    sel: "map (\<lambda>b. select_preset b (Date 2020 1 22, Date 2020 5 31)
                                   (Date 2020 1 22, Date 2020 5 31)) (range_presets fig)
       = [Some r7, Some r1, Some r3, Some (Date 2020 1 22, Date 2020 5 31)]"
    and s7: "span r7 = 7"
    and s1: "span r1 = month_length (month_offset (- 1) (Date 2020 5 31))"
    and s3: "span r3 = month_length (month_offset (- 1) (Date 2020 5 31))
                       + month_length (month_offset (- 2) (Date 2020 5 31))
                       + month_length (month_offset (- 3) (Date 2020 5 31))"
    by (elim exE conjE) (rule that)
  have v1: "span r1 = 30" by (simp only: s1 ml)
  have v3: "span r3 = 90" unfolding s3 ml by simp
  show ?thesis
    by (rule exI [of _ fig], rule exI [of _ r7], rule exI [of _ r1], rule exI [of _ r3])
       (intro conjI f sel s7 v1 v3)
qed

end
